theory Spec2Isabelle
  imports Complex_Main
begin

section \<open>JavaScript values\<close>

text \<open>
  The dependency values that the hook and its helpers inspect. A number is an IEEE double:
  it is not-a-number, an infinity, negative zero, or a finite value (\<open>Fin 0\<close> is positive
  zero); each double has one representation here, so that the SameValue comparison of two
  numbers is plain equality. A structured value (array, plain object, function) carries the
  reference it lives at together with the contents that reference holds when it is
  inspected. A function value carries what the source reads of it: its \<open>name\<close> property and
  the text its \<open>toString()\<close> returns. Cyclic objects, host objects and functions with an
  overridden \<open>toString\<close> are outside this model. An array inside a value is given by the
  values read at its indices. Characters are 8-bit.
\<close>

datatype jsnumber = NaN | PosInf | NegInf | NegZero | Fin rat

type_synonym ref = nat

datatype jsval =
    JUndefined
  | JNull
  | JBool bool
  | JNum jsnumber
  | JStr string
  | JSymbol nat
  | JBigInt int
  | JArray ref "jsval list"
  | JObject ref "(string \<times> jsval) list"
  | JFunction ref string string

text \<open>
  A dependency array, which the loops of the source walk, is a list of slots: a slot holds
  a value or is a hole, as in \<open>[1, , 3]\<close>. The length counts the holes; reading a hole gives
  \<open>undefined\<close>; the array methods \<open>every\<close>, \<open>forEach\<close> and \<open>map\<close> skip holes; the spread
  \<open>[...xs]\<close> copies an array and fills its holes with \<open>undefined\<close>.
\<close>

type_synonym slot = "jsval option"

type_synonym DependencyList = "slot list"

definition readSlot :: "slot \<Rightarrow> jsval" where
  "readSlot s = (case s of None \<Rightarrow> JUndefined | Some v \<Rightarrow> v)"

definition spread :: "DependencyList \<Rightarrow> DependencyList" where
  "spread xs = map (\<lambda>s. Some (readSlot s)) xs"

datatype jstype =
  TString | TNumber | TBoolean | TUndefined | TFunction | TObject | TSymbol | TBigint

text \<open>The \<open>typeof\<close> operator.\<close>

fun typeof :: "jsval \<Rightarrow> jstype" where
  "typeof JUndefined = TUndefined"
| "typeof JNull = TObject"
| "typeof (JBool b) = TBoolean"
| "typeof (JNum n) = TNumber"
| "typeof (JStr s) = TString"
| "typeof (JSymbol k) = TSymbol"
| "typeof (JBigInt z) = TBigint"
| "typeof (JArray r xs) = TObject"
| "typeof (JObject r ps) = TObject"
| "typeof (JFunction r nm src) = TFunction"

text \<open>\<open>Array.isArray\<close>.\<close>

fun isArray :: "jsval \<Rightarrow> bool" where
  "isArray (JArray r xs) = True"
| "isArray v = False"

text \<open>The reference of a structured value; a primitive has none.\<close>

fun refOf :: "jsval \<Rightarrow> ref option" where
  "refOf (JArray r xs) = Some r"
| "refOf (JObject r ps) = Some r"
| "refOf (JFunction r nm src) = Some r"
| "refOf v = None"

text \<open>
  \<open>Object.is\<close> (SameValue): two structured values are the same when they are the same
  reference, two primitives when they are the same primitive value (\<open>NaN\<close> is \<open>NaN\<close>,
  positive zero is not negative zero).
\<close>

definition objectIs :: "jsval \<Rightarrow> jsval \<Rightarrow> bool" where
  "objectIs x y = (case refOf x of Some r \<Rightarrow> refOf y = Some r | None \<Rightarrow> x = y)"

text \<open>
  The \<open>===\<close> operator: as \<open>Object.is\<close>, except that \<open>NaN\<close> differs from itself and the two
  zeros are equal.
\<close>

fun strictEqNum :: "jsnumber \<Rightarrow> jsnumber \<Rightarrow> bool" where
  "strictEqNum NaN b = False"
| "strictEqNum a NaN = False"
| "strictEqNum NegZero b = (b = NegZero \<or> b = Fin 0)"
| "strictEqNum (Fin q) NegZero = (q = 0)"
| "strictEqNum a b = (a = b)"

fun strictEq :: "jsval \<Rightarrow> jsval \<Rightarrow> bool" where
  "strictEq (JNum a) (JNum b) = strictEqNum a b"
| "strictEq x y = objectIs x y"

section \<open>Errors and member access\<close>

text \<open>
  Reading a property of \<open>undefined\<close> raises a \<open>TypeError\<close>. A sequence that may be absent is
  a \<open>DependencyList option\<close>, and every member access on it is an operation that can fail,
  so that the guards of the source are what keeps the functions below from raising.
\<close>

datatype error = TypeError

definition bindE :: "error + 'a \<Rightarrow> ('a \<Rightarrow> error + 'b) \<Rightarrow> error + 'b" where
  "bindE m f = (case m of Inl e \<Rightarrow> Inl e | Inr v \<Rightarrow> f v)"

text \<open>\<open>xs.length\<close>.\<close>

fun lengthOf :: "DependencyList option \<Rightarrow> error + nat" where
  "lengthOf None = Inl TypeError"
| "lengthOf (Some xs) = Inr (length xs)"

text \<open>\<open>xs[i]\<close>: \<open>undefined\<close> at a hole and past the end of an array.\<close>

fun elemAt :: "DependencyList option \<Rightarrow> nat \<Rightarrow> error + jsval" where
  "elemAt None i = Inl TypeError"
| "elemAt (Some xs) i = Inr (if i < length xs then readSlot (xs ! i) else JUndefined)"

text \<open>
  \<open>xs.every(callback)\<close>: the callback receives each element that is present with its index,
  in order, and the first \<open>false\<close> ends the loop. A hole is passed over.
\<close>

fun everyFrom :: "(jsval \<Rightarrow> nat \<Rightarrow> error + bool) \<Rightarrow> slot list \<Rightarrow> nat \<Rightarrow> error + bool" where
  "everyFrom f [] i = Inr True"
| "everyFrom f (None # xs) i = everyFrom f xs (Suc i)"
| "everyFrom f (Some x # xs) i =
     bindE (f x i) (\<lambda>b. if b then everyFrom f xs (Suc i) else Inr False)"

fun every :: "DependencyList option \<Rightarrow> (jsval \<Rightarrow> nat \<Rightarrow> error + bool) \<Rightarrow> error + bool" where
  "every None f = Inl TypeError"
| "every (Some xs) f = everyFrom f xs 0"

text \<open>
  \<open>xs.forEach(callback)\<close>, threading the state the callback updates: the callback receives
  each element that is present with its index, in order. A hole is passed over.
\<close>

fun forEachFrom :: "(jsval \<Rightarrow> nat \<Rightarrow> 's \<Rightarrow> 's) \<Rightarrow> slot list \<Rightarrow> nat \<Rightarrow> 's \<Rightarrow> 's" where
  "forEachFrom f [] i s = s"
| "forEachFrom f (None # xs) i s = forEachFrom f xs (Suc i) s"
| "forEachFrom f (Some x # xs) i s = forEachFrom f xs (Suc i) (f x i s)"

fun forEach :: "DependencyList option \<Rightarrow> (jsval \<Rightarrow> nat \<Rightarrow> 's \<Rightarrow> 's) \<Rightarrow> 's \<Rightarrow> error + 's" where
  "forEach None f s = Inl TypeError"
| "forEach (Some xs) f s = Inr (forEachFrom f xs 0 s)"

section \<open>Deep equality of the comparison library\<close>

text \<open>
  \<open>isEqual\<close> is the function of the external package \<open>lodash.isequal\<close>, which is not part
  of the repository. It is modelled on the values above from its documented behaviour:
  two values that are \<open>===\<close> are equal; two numbers that are both \<open>NaN\<close> are equal; two
  arrays are equal when they have the same length and equal elements at every index; two
  plain objects are equal when they have the same number of keys, and every key of the
  first is a key of the second with an equal value; functions and symbols are equal only
  when they are \<open>===\<close>; everything else is unequal.
\<close>

fun isEqual :: "jsval \<Rightarrow> jsval \<Rightarrow> bool" where
  "isEqual (JNum a) (JNum b) = (strictEqNum a b \<or> (a = NaN \<and> b = NaN))"
| "isEqual (JArray r xs) (JArray r' ys) = (r = r' \<or> list_all2 isEqual xs ys)"
| "isEqual (JObject r ps) (JObject r' qs) =
     (r = r' \<or>
      (length ps = length qs \<and>
       list_all (\<lambda>p. case map_of qs (fst p) of None \<Rightarrow> False | Some w \<Rightarrow> isEqual (snd p) w) ps))"
| "isEqual x y = strictEq x y"

section \<open>The change detector\<close>

text \<open>
  The options of the hook after destructuring with its defaults. \<open>compareFunction\<close> is the
  caller's predicate, absent by default; it answers whether the two sequences are equal.
\<close>

datatype effect_mode = Effect | LayoutEffect

record UseSmartEffectOptions =
  skipFirstRender :: bool
  debug :: bool
  mode :: effect_mode
  deepCompare :: bool
  compareFunction :: "(DependencyList \<Rightarrow> DependencyList \<Rightarrow> bool) option"
  optId :: "string option"

text \<open>\<open>deepCompareDeps\<close> of \<open>utils.ts\<close>: true when the two sequences are deeply equal.\<close>

definition deepCompareDeps :: "DependencyList option \<Rightarrow> DependencyList option \<Rightarrow> error + bool" where
  "deepCompareDeps prevDeps nextDeps =
     (if prevDeps = None \<or> nextDeps = None then Inr (prevDeps = nextDeps)
      else bindE (lengthOf prevDeps) (\<lambda>lp. bindE (lengthOf nextDeps) (\<lambda>ln.
        if lp \<noteq> ln then Inr False
        else every prevDeps (\<lambda>prev index. bindE (elemAt nextDeps index) (\<lambda>next.
               if typeof prev = TObject \<and> prev \<noteq> JNull then Inr (isEqual prev next)
               else Inr (objectIs prev next))))))"

text \<open>
  The comparison of \<open>useSmartEffect\<close> on a render past the first-render gate: the caller's
  predicate when there is one, else the deep comparison when it is switched on, else the
  element-wise \<open>Object.is\<close> comparison. The result is whether the effect is to run.
\<close>

definition detectChange ::
  "UseSmartEffectOptions \<Rightarrow> DependencyList option \<Rightarrow> DependencyList option \<Rightarrow> error + bool" where
  "detectChange options prevDeps deps =
     (case deps of
        None \<Rightarrow> Inr True
      | Some d \<Rightarrow>
         (case compareFunction options of
            Some f \<Rightarrow> Inr (\<not> f (case prevDeps of None \<Rightarrow> [] | Some p \<Rightarrow> p) d)
          | None \<Rightarrow>
             if deepCompare options
             then bindE (deepCompareDeps prevDeps deps) (\<lambda>same. Inr (\<not> same))
             else if prevDeps = None then Inr True
             else bindE (lengthOf prevDeps) (\<lambda>lp. bindE (lengthOf deps) (\<lambda>ld.
               if lp \<noteq> ld then Inr True
               else bindE (every deps (\<lambda>dep index.
                             bindE (elemAt prevDeps index) (\<lambda>p. Inr (objectIs dep p))))
                          (\<lambda>same. Inr (\<not> same))))))"

text \<open>
  \<open>shouldRun\<close> of \<open>useSmartEffect\<close>: on the first render the skip flag alone decides, on
  every later render the comparison does.
\<close>

definition shouldRun ::
  "UseSmartEffectOptions \<Rightarrow> bool \<Rightarrow> DependencyList option \<Rightarrow> DependencyList option \<Rightarrow> error + bool" where
  "shouldRun options isFirstRender prevDeps deps =
     (if isFirstRender then Inr (\<not> skipFirstRender options)
      else detectChange options prevDeps deps)"

section \<open>The dependency categorizer\<close>

text \<open>Strings as the categorizer uses them.\<close>

text \<open>
  White space, as \<open>trim\<close> and the class \<open>\s\<close> of a regular expression see it, among
  8-bit characters: space, tab, line feed, vertical tab, form feed, carriage return and the
  no-break space.
\<close>

definition isWhitespace :: "char \<Rightarrow> bool" where
  "isWhitespace c =
     (c = CHR '' '' \<or> c = CHR 0x09 \<or> c = CHR 0x0A \<or> c = CHR 0x0B \<or> c = CHR 0x0C \<or>
      c = CHR 0x0D \<or> c = CHR 0xA0)"

definition trim :: "string \<Rightarrow> string" where
  "trim s = rev (dropWhile isWhitespace (rev (dropWhile isWhitespace s)))"

definition startsWith :: "string \<Rightarrow> string \<Rightarrow> bool" where
  "startsWith s pat = (take (length pat) s = pat)"

text \<open>\<open>s.includes(pat)\<close>: \<open>pat\<close> occurs somewhere in \<open>s\<close>.\<close>

fun includesStr :: "string \<Rightarrow> string \<Rightarrow> bool" where
  "includesStr [] pat = (pat = [])"
| "includesStr (c # cs) pat = (startsWith (c # cs) pat \<or> includesStr cs pat)"

text \<open>
  The test of the regular expression \<open>/^function\s*\(/\<close>: the word \<open>function\<close> at the
  start, then any white space, then an opening parenthesis.
\<close>

definition testFunctionParen :: "string \<Rightarrow> bool" where
  "testFunctionParen s =
     (startsWith s ''function'' \<and>
      (case dropWhile isWhitespace (drop 8 s) of [] \<Rightarrow> False | c # cs \<Rightarrow> c = CHR ''(''))"

text \<open>A number in a template string: its decimal digits.\<close>

definition digitChar :: "nat \<Rightarrow> char" where
  "digitChar d = ''0123456789'' ! d"

fun showNat :: "nat \<Rightarrow> string" where
  "showNat n = (if n < 10 then [digitChar n] else showNat (n div 10) @ [digitChar (n mod 10)])"

declare showNat.simps [simp del]

text \<open>The \<open>name\<close> property of a function value and the text of its \<open>toString()\<close>.\<close>

fun fnName :: "jsval \<Rightarrow> string" where
  "fnName (JFunction r nm src) = nm"
| "fnName v = []"

fun fnToString :: "jsval \<Rightarrow> string" where
  "fnToString (JFunction r nm src) = src"
| "fnToString v = []"

record DependencyAnalysis =
  primitives :: "jsval list"
  objects :: "jsval list"
  functions' :: "jsval list"
  potentiallyMissing :: "string list"
  redundant :: "jsval list"

text \<open>
  \<open>isAnonymous\<close> as \<open>analyzeDeps\<close> computes it for a function dependency: the trimmed
  source contains \<open>=>\<close>, or starts as a function expression without a name, or the name is
  empty, or the name is \<open>anonymous\<close>.
\<close>

definition isAnonymous :: "jsval \<Rightarrow> bool" where
  "isAnonymous dep =
     (let fnString = trim (fnToString dep)
      in includesStr fnString ''=>'' \<or> testFunctionParen fnString \<or>
         fnName dep = [] \<or> fnName dep = ''anonymous'')"

text \<open>
  The body of the \<open>forEach\<close> callback of \<open>analyzeDeps\<close>: the \<open>switch\<close> on the type of one
  dependency. The types \<open>symbol\<close> and \<open>bigint\<close> have no \<open>case\<close>.
\<close>

definition analyzeDep :: "jsval \<Rightarrow> nat \<Rightarrow> DependencyAnalysis \<Rightarrow> DependencyAnalysis" where
  "analyzeDep dep index analysis =
     (case typeof dep of
        TString \<Rightarrow> analysis\<lparr>primitives := primitives analysis @ [dep]\<rparr>
      | TNumber \<Rightarrow> analysis\<lparr>primitives := primitives analysis @ [dep]\<rparr>
      | TBoolean \<Rightarrow> analysis\<lparr>primitives := primitives analysis @ [dep]\<rparr>
      | TUndefined \<Rightarrow> analysis\<lparr>primitives := primitives analysis @ [dep]\<rparr>
      | TFunction \<Rightarrow>
          analysis\<lparr>functions' := functions' analysis @ [dep],
            potentiallyMissing := potentiallyMissing analysis @
              [if isAnonymous dep then ''Anonymous function at index '' @ showNat index
               else ''Named function at index '' @ showNat index]\<rparr>
      | TObject \<Rightarrow>
          if dep = JNull then analysis\<lparr>primitives := primitives analysis @ [dep]\<rparr>
          else if isArray dep then
            analysis\<lparr>objects := objects analysis @ [dep],
              potentiallyMissing := potentiallyMissing analysis @
                [''Array at index '' @ showNat index]\<rparr>
          else
            analysis\<lparr>objects := objects analysis @ [dep],
              potentiallyMissing := potentiallyMissing analysis @
                [''Object at index '' @ showNat index]\<rparr>
      | TSymbol \<Rightarrow> analysis
      | TBigint \<Rightarrow> analysis)"

text \<open>
  \<open>analyzeDeps\<close> of \<open>utils.ts\<close>: the empty report, updated by the callback on every element
  of \<open>deps\<close>. Its parameter is declared a sequence; nothing in the function looks at \<open>deps\<close>
  before \<open>deps.forEach\<close>, which raises on \<open>undefined\<close>.
\<close>

definition analyzeDeps :: "DependencyList option \<Rightarrow> error + DependencyAnalysis" where
  "analyzeDeps deps =
     forEach deps analyzeDep
       \<lparr>primitives = [], objects = [], functions' = [], potentiallyMissing = [], redundant = []\<rparr>"

section \<open>The diagnostic store\<close>

record ReportDependencies =
  previous :: DependencyList
  current :: DependencyList
  changed :: "bool option list"

record EffectReport =
  reportId :: string
  triggered :: bool
  dependencies :: ReportDependencies
  timestamp :: nat
  renderCount :: nat

text \<open>
  A JavaScript \<open>Map\<close> keeps its entries in the order in which their keys were first
  inserted: an association list. \<open>set\<close> on a key that is present replaces the value where it
  stands, on a new key it appends; \<open>keys().next().value\<close> is the first key, or \<open>undefined\<close>
  for an empty map.
\<close>

type_synonym 'v jsmap = "(string \<times> 'v) list"

fun mapSet :: "string \<Rightarrow> 'v \<Rightarrow> 'v jsmap \<Rightarrow> 'v jsmap" where
  "mapSet k v [] = [(k, v)]"
| "mapSet k v (p # m) = (if fst p = k then (k, v) # m else p # mapSet k v m)"

definition mapDelete :: "string \<Rightarrow> 'v jsmap \<Rightarrow> 'v jsmap" where
  "mapDelete k m = filter (\<lambda>p. fst p \<noteq> k) m"

fun firstKey :: "'v jsmap \<Rightarrow> string option" where
  "firstKey [] = None"
| "firstKey (p # m) = Some (fst p)"

record DevToolsState =
  effects :: "EffectReport jsmap"
  isEnabled :: bool

text \<open>
  The global \<open>window.__REACT_SMART_EFFECT_DEVTOOLS__\<close>: absent, or an object that has a
  callable \<open>postMessage\<close> member or has none. The environment of the module is the window
  with this global, or no window at all.
\<close>

datatype devtoolsGlobal = GlobalAbsent | GlobalObject bool

type_synonym jswindow = "devtoolsGlobal option"

text \<open>
  \<open>initializeDevToolsPanel\<close> of \<open>devtools.ts\<close>, as far as the global goes: where there is a
  window it installs an object with the members \<open>getReports\<close>, \<open>getReport\<close>, \<open>clearReports\<close>,
  \<open>generateGraph\<close>, \<open>enable\<close> and \<open>version\<close>, and no \<open>postMessage\<close>.
\<close>

fun initializeDevToolsPanel :: "jswindow \<Rightarrow> jswindow" where
  "initializeDevToolsPanel None = None"
| "initializeDevToolsPanel (Some g) = Some (GlobalObject False)"

text \<open>
  The call \<open>g.postMessage(message)\<close>: calling a member that is not there raises a
  \<open>TypeError\<close>.
\<close>

fun postMessage :: "devtoolsGlobal \<Rightarrow> error + unit" where
  "postMessage (GlobalObject True) = Inr ()"
| "postMessage g = Inl TypeError"

text \<open>
  The second step of \<open>reportToDevTools\<close>: the report is posted when there is a window and
  the global is there.
\<close>

fun sendToPanel :: "jswindow \<Rightarrow> error + unit" where
  "sendToPanel None = Inr ()"
| "sendToPanel (Some GlobalAbsent) = Inr ()"
| "sendToPanel (Some g) = postMessage g"

text \<open>
  \<open>reportToDevTools\<close> of \<open>devtools.ts\<close>: the store after the call, and the exception the
  call raised, if any. The report is stored first; when posting it raises, the call ends
  there, with the report in the store and the cap not yet looked at. \<open>if (oldestKey)\<close>
  holds for a key that is present and is not the empty string.
\<close>

definition reportToDevTools ::
  "jswindow \<Rightarrow> DevToolsState \<Rightarrow> EffectReport \<Rightarrow> DevToolsState \<times> error option" where
  "reportToDevTools win st report =
     (if \<not> isEnabled st then (st, None)
      else
        let st1 = st\<lparr>effects := mapSet (reportId report) report (effects st)\<rparr>
        in case sendToPanel win of
             Inl e \<Rightarrow> (st1, Some e)
           | Inr u \<Rightarrow>
               if length (effects st1) > 1000
               then (case firstKey (effects st1) of
                       None \<Rightarrow> (st1, None)
                     | Some oldestKey \<Rightarrow>
                         if oldestKey \<noteq> []
                         then (st1\<lparr>effects := mapDelete oldestKey (effects st1)\<rparr>, None)
                         else (st1, None))
               else (st1, None))"

section \<open>One render of the hook\<close>

text \<open>
  What \<open>useSmartEffect\<close> retains between renders (its three refs), the store of the
  devtools module, and the window.
\<close>

record HookRefs =
  effectId :: string
  isFirstRender :: bool
  prevDepsRef :: "DependencyList option"

record World =
  hook :: HookRefs
  devToolsState :: DevToolsState
  window :: jswindow

text \<open>
  What one render comes to: the decision and the analysis it computed, the exception that
  the report to the store raised, if any, which then leaves the render, and the world after
  the render.
\<close>

record RenderResult =
  willRun :: bool
  analysis :: "DependencyAnalysis option"
  thrown :: "error option"
  world :: World

text \<open>
  The \<open>changed\<close> flags of the report: \<open>deps.map\<close> with the callback
  \<open>!Object.is(dep, prevDepsRef.current?.[index])\<close>; a hole of \<open>deps\<close> stays a hole.
\<close>

definition changedFlags :: "DependencyList option \<Rightarrow> DependencyList \<Rightarrow> bool option list" where
  "changedFlags prev deps =
     map (\<lambda>(s, index).
            case s of
              None \<Rightarrow> None
            | Some dep \<Rightarrow>
                Some (\<not> objectIs dep
                   (case prev of
                      None \<Rightarrow> JUndefined
                    | Some p \<Rightarrow> if index < length p then readSlot (p ! index) else JUndefined)))
         (zip deps [0..<length deps])"

text \<open>
  The body of \<open>useSmartEffect\<close> for one render, at clock reading \<open>now\<close>: the decision, the
  analysis of the debug mode, the report to the store, the copy of the dependencies kept
  for the next render. An exception raised before the report is the result \<open>Inl\<close>; one
  raised by the report is the field \<open>thrown\<close>, and the copy is then not made. Console output
  is not modelled. The effect callback, which clears the first-render flag after the
  render, is \<open>afterRender\<close>.
\<close>

definition useSmartEffect ::
  "World \<Rightarrow> nat \<Rightarrow> UseSmartEffectOptions \<Rightarrow> DependencyList option \<Rightarrow> error + RenderResult" where
  "useSmartEffect w now options deps =
     bindE (shouldRun options (isFirstRender (hook w)) (prevDepsRef (hook w)) deps) (\<lambda>run.
     bindE (if debug options \<and> deps \<noteq> None
            then bindE (analyzeDeps deps) (\<lambda>a. Inr (Some a))
            else Inr None) (\<lambda>an.
       let report = \<lparr>reportId = effectId (hook w), triggered = run,
                      dependencies = \<lparr>previous = (case prevDepsRef (hook w) of None \<Rightarrow> [] | Some p \<Rightarrow> p),
                                       current = (case deps of None \<Rightarrow> [] | Some d \<Rightarrow> d),
                                       changed = (case deps of None \<Rightarrow> []
                                                  | Some d \<Rightarrow> changedFlags (prevDepsRef (hook w)) d)\<rparr>,
                      timestamp = now, renderCount = 0\<rparr>;
           sent = reportToDevTools (window w) (devToolsState w) report
       in case snd sent of
            Some e \<Rightarrow>
              Inr \<lparr>willRun = run, analysis = an, thrown = Some e,
                   world = w\<lparr>devToolsState := fst sent\<rparr>\<rparr>
          | None \<Rightarrow>
              Inr \<lparr>willRun = run, analysis = an, thrown = None,
                   world = w\<lparr>devToolsState := fst sent,
                             hook := (hook w)\<lparr>prevDepsRef := map_option spread deps\<rparr>\<rparr>\<rparr>))"

definition afterRender :: "World \<Rightarrow> World" where
  "afterRender w = w\<lparr>hook := (hook w)\<lparr>isFirstRender := False\<rparr>\<rparr>"

section \<open>Structural equality\<close>







section \<open>Notions used to state the properties\<close>

text \<open>A sequence without holes, and the values a sequence holds, in order.\<close>

definition dense :: "jsval list \<Rightarrow> DependencyList" where
  "dense vs = map Some vs"

fun present :: "DependencyList \<Rightarrow> jsval list" where
  "present [] = []"
| "present (None # xs) = present xs"
| "present (Some v # xs) = v # present xs"

text \<open>
  The comparison that \<open>deepCompareDeps\<close> makes of one previous element with the next
  element at the same index.
\<close>

definition deepElem :: "jsval \<Rightarrow> jsval \<Rightarrow> bool" where
  "deepElem prev next =
     (if typeof prev = TObject \<and> prev \<noteq> JNull then isEqual prev next else objectIs prev next)"


text \<open>
  The bucket of the categorization report a value belongs to, by its kind, and the
  advisory it calls for at index \<open>i\<close> of the sequence. A symbol and a bigint have no
  bucket.
\<close>

datatype bucket = PrimitiveBucket | StructuredBucket | FunctionBucket

fun bucketOf :: "jsval \<Rightarrow> bucket option" where
  "bucketOf JUndefined = Some PrimitiveBucket"
| "bucketOf JNull = Some PrimitiveBucket"
| "bucketOf (JBool b) = Some PrimitiveBucket"
| "bucketOf (JNum n) = Some PrimitiveBucket"
| "bucketOf (JStr s) = Some PrimitiveBucket"
| "bucketOf (JSymbol k) = None"
| "bucketOf (JBigInt z) = None"
| "bucketOf (JArray r xs) = Some StructuredBucket"
| "bucketOf (JObject r ps) = Some StructuredBucket"
| "bucketOf (JFunction r nm src) = Some FunctionBucket"

fun advisory :: "jsval \<Rightarrow> nat \<Rightarrow> string list" where
  "advisory (JArray r xs) i = [''Array at index '' @ showNat i]"
| "advisory (JObject r ps) i = [''Object at index '' @ showNat i]"
| "advisory (JFunction r nm src) i =
     [(if isAnonymous (JFunction r nm src) then ''Anonymous function at index ''
       else ''Named function at index '') @ showNat i]"
| "advisory v i = []"

text \<open>
  The advisories of a sequence whose first slot has index \<open>i\<close>, in order: those of the
  elements it holds, each at its index in the sequence.
\<close>

fun advisories :: "DependencyList \<Rightarrow> nat \<Rightarrow> string list" where
  "advisories [] i = []"
| "advisories (None # xs) i = advisories xs (Suc i)"
| "advisories (Some v # xs) i = advisory v i @ advisories xs (Suc i)"

text \<open>Options, reports, stores and worlds for the concrete instances below.\<close>

definition identityOptions :: UseSmartEffectOptions where
  "identityOptions = \<lparr>skipFirstRender = False, debug = False, mode = Effect,
     deepCompare = False, compareFunction = None, optId = None\<rparr>"

definition deepOptions :: UseSmartEffectOptions where
  "deepOptions = identityOptions\<lparr>deepCompare := True\<rparr>"

definition alwaysEqualOptions :: UseSmartEffectOptions where
  "alwaysEqualOptions = identityOptions\<lparr>compareFunction := Some (\<lambda>prev next. True)\<rparr>"

definition reportWithId :: "string \<Rightarrow> EffectReport" where
  "reportWithId k = \<lparr>reportId = k, triggered = True,
     dependencies = \<lparr>previous = [], current = [], changed = []\<rparr>,
     timestamp = 0, renderCount = 0\<rparr>"

definition emptyStore :: DevToolsState where
  "emptyStore = \<lparr>effects = [], isEnabled = True\<rparr>"

text \<open>
  The first \<open>n\<close> reports of the series whose identifiers are the empty string, one
  letter, two letters, and so on.
\<close>

definition growingIds :: "nat \<Rightarrow> EffectReport list" where
  "growingIds n = map (\<lambda>i. reportWithId (replicate i (CHR ''a''))) [0..<n]"

definition quietWorld :: World where
  "quietWorld =
     \<lparr>hook = \<lparr>effectId = ''first'', isFirstRender = False,
               prevDepsRef = Some [Some (JArray 1 [JNum (Fin 1)])]\<rparr>,
      devToolsState = \<lparr>effects = [], isEnabled = False\<rparr>,
      window = None\<rparr>"

definition busyWorld :: World where
  "busyWorld =
     \<lparr>hook = \<lparr>effectId = ''second'', isFirstRender = False,
               prevDepsRef = Some [Some (JArray 1 [JNum (Fin 1)])]\<rparr>,
      devToolsState = \<lparr>effects = [(''x'', reportWithId ''x'')], isEnabled = True\<rparr>,
      window = initializeDevToolsPanel (Some GlobalAbsent)\<rparr>"

section \<open>Lemmas about the loops and the comparison\<close>

lemma everyFrom_pure:
  "(\<And>j x. j < length xs \<Longrightarrow> xs ! j = Some x \<Longrightarrow> f x (k + j) = Inr (P x (k + j))) \<Longrightarrow>
   everyFrom f xs k = Inr (\<forall>j<length xs. \<forall>x. xs ! j = Some x \<longrightarrow> P x (k + j))"
proof (induction xs arbitrary: k)
  case Nil
  show ?case by simp
next
  case (Cons s xs)
  have tl: "everyFrom f xs (Suc k) =
      Inr (\<forall>j<length xs. \<forall>x. xs ! j = Some x \<longrightarrow> P x (Suc k + j))"
  proof (rule Cons.IH)
    fix j x assume "j < length xs" "xs ! j = Some x"
    then show "f x (Suc k + j) = Inr (P x (Suc k + j))"
      using Cons.prems [of "Suc j" x] by simp
  qed
  show ?case
  proof (cases s)
    case None
    then show ?thesis using tl by (simp add: All_less_Suc2)
  next
    case (Some x)
    have hd: "f x k = Inr (P x k)"
      using Cons.prems [of 0 x] Some by simp
    show ?thesis
    proof (cases "P x k")
      case False
      then show ?thesis using hd Some by (auto simp: bindE_def intro: exI [of _ 0])
    next
      case True
      then show ?thesis
        using hd tl Some by (simp add: bindE_def All_less_Suc2)
    qed
  qed
qed

lemma deepCompareDeps_Some:
  "deepCompareDeps (Some p) (Some n) =
     Inr (length p = length n \<and>
          (\<forall>i<length p. \<forall>v. p ! i = Some v \<longrightarrow> deepElem v (readSlot (n ! i))))"
proof (cases "length p = length n")
  case False
  then show ?thesis by (simp add: deepCompareDeps_def bindE_def)
next
  case True
  have "everyFrom (\<lambda>prev index. bindE (elemAt (Some n) index) (\<lambda>next.
               if typeof prev = TObject \<and> prev \<noteq> JNull then Inr (isEqual prev next)
               else Inr (objectIs prev next))) p 0
        = Inr (\<forall>j<length p. \<forall>v. p ! j = Some v \<longrightarrow> deepElem v (readSlot (n ! (0 + j))))"
    by (rule everyFrom_pure) (simp add: True bindE_def deepElem_def)
  with True show ?thesis
    by (simp add: deepCompareDeps_def bindE_def)
qed

lemma detectChange_identity:
  assumes "compareFunction options = None" and "\<not> deepCompare options"
  shows "detectChange options (Some p) (Some d) =
     Inr (\<not> (length p = length d \<and>
              (\<forall>i<length d. \<forall>v. d ! i = Some v \<longrightarrow> objectIs v (readSlot (p ! i)))))"
proof (cases "length p = length d")
  case False
  with assms show ?thesis by (simp add: detectChange_def bindE_def)
next
  case True
  have "everyFrom (\<lambda>dep index. bindE (elemAt (Some p) index) (\<lambda>p. Inr (objectIs dep p))) d 0
        = Inr (\<forall>j<length d. \<forall>v. d ! j = Some v \<longrightarrow> objectIs v (readSlot (p ! (0 + j))))"
    by (rule everyFrom_pure) (simp add: True bindE_def)
  with True assms show ?thesis
    by (simp add: detectChange_def bindE_def)
qed

lemma objectIs_refl: "objectIs x x"
  by (simp add: objectIs_def split: option.splits)

lemma deepCompareDeps_absent:
  "prevDeps = None \<or> nextDeps = None \<Longrightarrow> deepCompareDeps prevDeps nextDeps = Inr (prevDeps = nextDeps)"
  by (simp add: deepCompareDeps_def)

lemma deepCompareDeps_returns: "\<exists>b. deepCompareDeps prevDeps nextDeps = Inr b"
proof (cases "prevDeps = None \<or> nextDeps = None")
  case True
  then show ?thesis by (simp add: deepCompareDeps_absent)
next
  case False
  then obtain p n where "prevDeps = Some p" "nextDeps = Some n" by auto
  then show ?thesis by (simp add: deepCompareDeps_Some)
qed

lemma detectChange_returns: "\<exists>b. detectChange options prevDeps deps = Inr b"
proof (cases deps)
  case None
  then show ?thesis by (auto simp: detectChange_def)
next
  case (Some d)
  show ?thesis
  proof (cases "compareFunction options")
    case (Some f)
    with \<open>deps = Some d\<close> show ?thesis by (simp add: detectChange_def)
  next
    case None
    note cf = this
    show ?thesis
    proof (cases "deepCompare options")
      case True
      obtain b where "deepCompareDeps prevDeps deps = Inr b"
        using deepCompareDeps_returns by blast
      with True cf \<open>deps = Some d\<close> show ?thesis by (simp add: detectChange_def bindE_def)
    next
      case False
      show ?thesis
      proof (cases prevDeps)
        case None
        with False cf \<open>deps = Some d\<close> show ?thesis by (auto simp: detectChange_def)
      next
        case (Some p)
        with False cf \<open>deps = Some d\<close> show ?thesis by (simp add: detectChange_identity)
      qed
    qed
  qed
qed

lemma shouldRun_returns: "\<exists>b. shouldRun options firstRender prevDeps deps = Inr b"
  using detectChange_returns by (simp add: shouldRun_def)

lemma detectChange_custom:
  "compareFunction options = Some f \<Longrightarrow>
   detectChange options prevDeps (Some d) =
     Inr (\<not> f (case prevDeps of None \<Rightarrow> [] | Some p \<Rightarrow> p) d)"
  by (simp add: detectChange_def)

lemma detectChange_deep:
  "compareFunction options = None \<Longrightarrow> deepCompare options \<Longrightarrow>
   detectChange options (Some p) (Some d) =
     Inr (\<not> (length p = length d \<and>
              (\<forall>i<length p. \<forall>v. p ! i = Some v \<longrightarrow> deepElem v (readSlot (d ! i)))))"
  by (simp add: detectChange_def deepCompareDeps_Some bindE_def)

lemma detectChange_no_previous:
  "compareFunction options = None \<Longrightarrow> detectChange options None (Some d) = Inr True"
  by (simp add: detectChange_def deepCompareDeps_absent bindE_def)

lemma useSmartEffect_result:
  assumes "shouldRun options (isFirstRender (hook w)) (prevDepsRef (hook w)) deps = Inr b"
  shows "\<exists>e w'. useSmartEffect w now options deps =
     Inr \<lparr>willRun = b,
          analysis = (if debug options then
                        (case deps of None \<Rightarrow> None
                         | Some d \<Rightarrow> Some (forEachFrom analyzeDep d 0
                             \<lparr>primitives = [], objects = [], functions' = [],
                              potentiallyMissing = [], redundant = []\<rparr>))
                      else None),
          thrown = e, world = w'\<rparr>"
  using assms
  by (cases deps)
     (simp_all add: useSmartEffect_def bindE_def analyzeDeps_def Let_def split: option.splits)

section \<open>Lemmas about structural equality\<close>






section \<open>Lemmas about the categorizer\<close>

lemma forEachFrom_analyzeDep:
  "forEachFrom analyzeDep xs i a =
     a\<lparr>primitives := primitives a @ filter (\<lambda>v. bucketOf v = Some PrimitiveBucket) (present xs),
       objects := objects a @ filter (\<lambda>v. bucketOf v = Some StructuredBucket) (present xs),
       functions' := functions' a @ filter (\<lambda>v. bucketOf v = Some FunctionBucket) (present xs),
       potentiallyMissing := potentiallyMissing a @ advisories xs i\<rparr>"
proof (induction xs arbitrary: i a)
  case Nil
  show ?case by simp
next
  case (Cons s xs)
  show ?case
  proof (cases s)
    case None
    then show ?thesis by (simp add: Cons.IH)
  next
    case (Some x)
    have "forEachFrom analyzeDep (Some x # xs) i a =
          forEachFrom analyzeDep xs (Suc i) (analyzeDep x i a)"
      by simp
    also have "\<dots> = (analyzeDep x i a)
        \<lparr>primitives := primitives (analyzeDep x i a) @
           filter (\<lambda>v. bucketOf v = Some PrimitiveBucket) (present xs),
         objects := objects (analyzeDep x i a) @
           filter (\<lambda>v. bucketOf v = Some StructuredBucket) (present xs),
         functions' := functions' (analyzeDep x i a) @
           filter (\<lambda>v. bucketOf v = Some FunctionBucket) (present xs),
         potentiallyMissing := potentiallyMissing (analyzeDep x i a) @ advisories xs (Suc i)\<rparr>"
      by (rule Cons.IH)
    also have "\<dots> = a
        \<lparr>primitives := primitives a @
           filter (\<lambda>v. bucketOf v = Some PrimitiveBucket) (present (Some x # xs)),
         objects := objects a @
           filter (\<lambda>v. bucketOf v = Some StructuredBucket) (present (Some x # xs)),
         functions' := functions' a @
           filter (\<lambda>v. bucketOf v = Some FunctionBucket) (present (Some x # xs)),
         potentiallyMissing := potentiallyMissing a @ advisories (Some x # xs) i\<rparr>"
      by (cases x) (simp_all add: analyzeDep_def)
    finally show ?thesis using Some by simp
  qed
qed

lemma analyzeDeps_buckets:
  "analyzeDeps (Some deps) =
     Inr \<lparr>primitives = filter (\<lambda>v. bucketOf v = Some PrimitiveBucket) (present deps),
          objects = filter (\<lambda>v. bucketOf v = Some StructuredBucket) (present deps),
          functions' = filter (\<lambda>v. bucketOf v = Some FunctionBucket) (present deps),
          potentiallyMissing = advisories deps 0,
          redundant = []\<rparr>"
  by (simp add: analyzeDeps_def forEachFrom_analyzeDep)

lemma bucket_sizes:
  "length (filter (\<lambda>v. bucketOf v = Some PrimitiveBucket) xs) +
   length (filter (\<lambda>v. bucketOf v = Some StructuredBucket) xs) +
   length (filter (\<lambda>v. bucketOf v = Some FunctionBucket) xs) +
   length (filter (\<lambda>v. bucketOf v = None) xs) = length xs"
proof (induction xs)
  case Nil
  show ?case by simp
next
  case (Cons x xs)
  then show ?case by (cases "bucketOf x" rule: option.exhaust; cases "the (bucketOf x)") auto
qed

lemma bucketOf_None: "bucketOf v = None \<longleftrightarrow> typeof v = TSymbol \<or> typeof v = TBigint"
  by (cases v) simp_all

lemma length_present_le: "length (present xs) \<le> length xs"
  by (induction xs rule: present.induct) simp_all

lemma length_present_eq: "length (present xs) = length xs \<longleftrightarrow> list_all (\<lambda>s. s \<noteq> None) xs"
proof (induction xs rule: present.induct)
  case (2 xs)
  show ?case using length_present_le [of xs] by simp
qed simp_all

lemma set_present: "set (present xs) = {v. Some v \<in> set xs}"
  by (induction xs rule: present.induct) auto

lemma showNat_digit: "n < 10 \<Longrightarrow> showNat n = [digitChar n]"
  by (simp add: showNat.simps)

section \<open>Lemmas about the diagnostic store\<close>

lemma mapSet_fresh: "k \<notin> fst ` set m \<Longrightarrow> mapSet k v m = m @ [(k, v)]"
  by (induction m) auto

lemma length_mapSet_le: "length (mapSet k v m) \<le> Suc (length m)"
  by (induction m) auto

lemma firstKey_mapSet:
  "firstKey (mapSet k v m) = (case m of [] \<Rightarrow> Some k | p # m' \<Rightarrow> Some (fst p))"
  by (cases m) auto

lemma length_mapDelete_first:
  "firstKey m = Some k \<Longrightarrow> length (mapDelete k m) < length m"
  by (cases m) (auto simp: mapDelete_def intro: le_imp_less_Suc)

lemma reportToDevTools_raises_with_own_panel:
  "isEnabled st \<Longrightarrow>
   snd (reportToDevTools (initializeDevToolsPanel (Some g)) st r) = Some TypeError"
  by (simp add: reportToDevTools_def Let_def)

lemma reportToDevTools_stores_first:
  "isEnabled st \<Longrightarrow> length (effects st) < 1000 \<Longrightarrow>
   fst (reportToDevTools win st r) = st\<lparr>effects := mapSet (reportId r) r (effects st)\<rparr>"
  using length_mapSet_le [of "reportId r" r "effects st"]
  by (simp add: reportToDevTools_def Let_def split: sum.splits)

lemma reportToDevTools_bounded:
  assumes "length (effects st) \<le> 1000"
    and "list_all (\<lambda>p. fst p \<noteq> []) (effects st)"
    and "sendToPanel win = Inr ()"
  shows "length (effects (fst (reportToDevTools win st r))) \<le> 1000"
proof (cases "isEnabled st")
  case False
  with assms show ?thesis by (simp add: reportToDevTools_def)
next
  case True
  let ?m = "mapSet (reportId r) r (effects st)"
  show ?thesis
  proof (cases "length ?m > 1000")
    case False
    with True assms(3) show ?thesis by (simp add: reportToDevTools_def Let_def)
  next
    case big: True
    then have "effects st \<noteq> []" using assms(1) by auto
    then obtain p m' where m: "effects st = p # m'" by (cases "effects st") auto
    then have fk: "firstKey ?m = Some (fst p)" by (simp add: firstKey_mapSet)
    have ne: "fst p \<noteq> []" using assms(2) m by simp
    have "length (mapDelete (fst p) ?m) < length ?m"
      by (rule length_mapDelete_first [OF fk])
    moreover have "length ?m \<le> 1001"
      using length_mapSet_le [of "reportId r" r "effects st"] assms(1) by simp
    ultimately have "length (mapDelete (fst p) ?m) \<le> 1000" by simp
    with True big fk ne assms(3) show ?thesis by (simp add: reportToDevTools_def Let_def)
  qed
qed

lemma growing_store:
  "n \<le> 1000 \<Longrightarrow>
   fold (\<lambda>r st. fst (reportToDevTools win st r)) (growingIds n) emptyStore =
     \<lparr>effects = map (\<lambda>i. (replicate i (CHR ''a''), reportWithId (replicate i (CHR ''a'')))) [0..<n],
      isEnabled = True\<rparr>"
proof (induction n)
  case 0
  show ?case by (simp add: growingIds_def emptyStore_def)
next
  case (Suc n)
  let ?kv = "\<lambda>i. (replicate i (CHR ''a''), reportWithId (replicate i (CHR ''a'')))"
  have fresh: "replicate n (CHR ''a'') \<notin> fst ` set (map ?kv [0..<n])"
  proof
    assume "replicate n (CHR ''a'') \<in> fst ` set (map ?kv [0..<n])"
    then obtain i where "i < n" "replicate n (CHR ''a'') = replicate i (CHR ''a'')"
      by auto
    then have "length (replicate n (CHR ''a'')) = length (replicate i (CHR ''a''))" by simp
    with \<open>i < n\<close> show False by simp
  qed
  have "fold (\<lambda>r st. fst (reportToDevTools win st r)) (growingIds (Suc n)) emptyStore =
        fst (reportToDevTools win
               (fold (\<lambda>r st. fst (reportToDevTools win st r)) (growingIds n) emptyStore)
               (reportWithId (replicate n (CHR ''a''))))"
    by (simp add: growingIds_def)
  also have "\<dots> = fst (reportToDevTools win \<lparr>effects = map ?kv [0..<n], isEnabled = True\<rparr>
          (reportWithId (replicate n (CHR ''a''))))"
    using Suc by simp
  also have "\<dots> = \<lparr>effects = map ?kv [0..<Suc n], isEnabled = True\<rparr>"
    using Suc.prems mapSet_fresh [OF fresh]
    by (simp add: reportToDevTools_stores_first reportWithId_def)
  finally show ?case .
qed

text \<open>
  With the panel object of the library on the window and the store enabled, the report of
  a render raises.
\<close>

lemma render_raises_with_own_panel:
  assumes "isEnabled (devToolsState w)" and "window w = initializeDevToolsPanel (Some g)"
  shows "\<exists>r. useSmartEffect w now options deps = Inr r \<and> thrown r = Some TypeError"
proof -
  obtain b where b: "shouldRun options (isFirstRender (hook w)) (prevDepsRef (hook w)) deps = Inr b"
    using shouldRun_returns by blast
  show ?thesis
    using assms b reportToDevTools_raises_with_own_panel [of "devToolsState w" g]
    by (cases deps) (simp_all add: useSmartEffect_def bindE_def analyzeDeps_def Let_def)
qed

section \<open>The change detector: properties\<close>

text \<open>
  C1, as amended. For a previous sequence \<open>P\<close> and a next sequence \<open>N\<close> of different
  lengths, the detector reports a change under the identity strategy and under the deep
  strategy, unless the render is a first render whose skip flag is set. Under a
  caller-supplied predicate the lengths play no part: on a first render the skip flag
  decides, and on a later render the detector reports a change exactly when the predicate
  answers that \<open>P\<close> and \<open>N\<close> are not equal.
\<close>

theorem length_mismatch_changed:
  assumes "length P \<noteq> length N" and "\<not> (firstRender \<and> skipFirstRender options)"
  shows "shouldRun options firstRender (Some P) (Some N) =
     Inr (case compareFunction options of
            None \<Rightarrow> True
          | Some f \<Rightarrow> firstRender \<or> \<not> f P N)"
proof (cases firstRender)
  case True
  with assms(2) show ?thesis by (simp add: shouldRun_def split: option.splits)
next
  case False
  show ?thesis
  proof (cases "compareFunction options")
    case (Some f)
    with False show ?thesis by (simp add: shouldRun_def detectChange_custom)
  next
    case None
    with False assms(1) show ?thesis
      by (cases "deepCompare options")
         (simp_all add: shouldRun_def detectChange_deep detectChange_identity)
  qed
qed

text \<open>The amended C1 at a one-element and a two-element sequence, deep strategy.\<close>

theorem length_mismatch_changed_witness:
  "length (dense [JNum (Fin 1)]) \<noteq> length (dense [JNum (Fin 1), JStr ''x'']) \<and>
   \<not> (False \<and> skipFirstRender deepOptions) \<and>
   shouldRun deepOptions False (Some (dense [JNum (Fin 1)]))
     (Some (dense [JNum (Fin 1), JStr ''x''])) = Inr True"
  using length_mismatch_changed [of "dense [JNum (Fin 1)]" "dense [JNum (Fin 1), JStr ''x'']"
      False deepOptions]
  by (simp add: deepOptions_def identityOptions_def dense_def)

text \<open>
  C1 as stated fails: with a predicate that always answers "equal", a one-element and a
  two-element sequence are reported unchanged.
\<close>

theorem length_mismatch_custom_counterexample:
  "length (dense [JNum (Fin 1)]) \<noteq> length (dense [JNum (Fin 1), JStr ''x'']) \<and>
   shouldRun alwaysEqualOptions False (Some (dense [JNum (Fin 1)]))
     (Some (dense [JNum (Fin 1), JStr ''x''])) = Inr False"
  by (simp add: shouldRun_def detectChange_def alwaysEqualOptions_def identityOptions_def
      dense_def)

text \<open>
  C2, as amended. For a next sequence \<open>S\<close> and an absent previous sequence, the detector
  reports a change under the identity strategy and under the deep strategy, unless the
  render is a first render whose skip flag is set. Under a caller-supplied predicate, on a
  later render, the predicate receives the empty sequence in place of the absent one, and
  the detector reports a change exactly when the predicate answers "not equal".
\<close>

theorem absent_previous_changed:
  assumes "\<not> (firstRender \<and> skipFirstRender options)"
  shows "shouldRun options firstRender None (Some S) =
     Inr (case compareFunction options of
            None \<Rightarrow> True
          | Some f \<Rightarrow> firstRender \<or> \<not> f [] S)"
proof (cases firstRender)
  case True
  with assms show ?thesis by (simp add: shouldRun_def split: option.splits)
next
  case False
  then show ?thesis
    by (cases "compareFunction options")
       (simp_all add: shouldRun_def detectChange_custom detectChange_no_previous)
qed

text \<open>
  The amended C2 on a first render under the identity strategy and on a later render under
  the deep strategy.
\<close>

theorem absent_previous_changed_witness:
  "\<not> (True \<and> skipFirstRender identityOptions) \<and>
   shouldRun identityOptions True None (Some (dense [JNum (Fin 1)])) = Inr True \<and>
   \<not> (False \<and> skipFirstRender deepOptions) \<and>
   shouldRun deepOptions False None (Some (dense [JNum (Fin 1)])) = Inr True"
  using absent_previous_changed [of True identityOptions "dense [JNum (Fin 1)]"]
    absent_previous_changed [of False deepOptions "dense [JNum (Fin 1)]"]
  by (simp add: deepOptions_def identityOptions_def)

text \<open>
  C2 as stated fails twice: with no previous sequence, a predicate that always answers
  "equal" has the detector report no change, and so has the skip flag on a first render.
\<close>

theorem absent_previous_counterexample:
  "shouldRun alwaysEqualOptions False None (Some (dense [JNum (Fin 1)])) = Inr False \<and>
   shouldRun (identityOptions\<lparr>skipFirstRender := True\<rparr>) True None
     (Some (dense [JNum (Fin 1)])) = Inr False"
  by (simp add: shouldRun_def detectChange_def alwaysEqualOptions_def identityOptions_def)




text \<open>
  C6. Under the identity strategy, when the next sequence \<open>S'\<close> has the length of the
  previous sequence \<open>S\<close> and each of its elements is the same value as the element of \<open>S\<close>
  at its index (the same reference for structured values, the same primitive value for
  primitives, which is what \<open>Object.is\<close> decides), the detector reports no change. The
  elements are the values read at the indices: a hole reads as \<open>undefined\<close>.
\<close>

theorem identity_same_elements_unchanged:
  assumes "compareFunction options = None" and "\<not> deepCompare options"
    and "list_all2 (\<lambda>n p. objectIs (readSlot n) (readSlot p)) S' S"
  shows "detectChange options (Some S) (Some S') = Inr False \<and>
         shouldRun options False (Some S) (Some S') = Inr False"
proof -
  have "length S = length S'"
    and "\<forall>i<length S'. objectIs (readSlot (S' ! i)) (readSlot (S ! i))"
    using assms(3) by (simp_all add: list_all2_conv_all_nth)
  then have "length S = length S'"
    and "\<forall>i<length S'. \<forall>v. S' ! i = Some v \<longrightarrow> objectIs v (readSlot (S ! i))"
    by (auto simp: readSlot_def)
  then show ?thesis
    using assms(1,2) by (simp add: shouldRun_def detectChange_identity)
qed

text \<open>C6 at a sequence of a number, a string and an object, compared with its copy.\<close>

theorem identity_same_elements_unchanged_witness:
  "compareFunction identityOptions = None \<and> \<not> deepCompare identityOptions \<and>
   list_all2 (\<lambda>n p. objectIs (readSlot n) (readSlot p))
     (dense [JNum (Fin 1), JStr ''test'', JObject 7 [(''a'', JNum (Fin 1))]])
     (dense [JNum (Fin 1), JStr ''test'', JObject 7 [(''a'', JNum (Fin 1))]]) \<and>
   detectChange identityOptions
     (Some (dense [JNum (Fin 1), JStr ''test'', JObject 7 [(''a'', JNum (Fin 1))]]))
     (Some (dense [JNum (Fin 1), JStr ''test'', JObject 7 [(''a'', JNum (Fin 1))]])) = Inr False"
  using identity_same_elements_unchanged [of identityOptions
      "dense [JNum (Fin 1), JStr ''test'', JObject 7 [(''a'', JNum (Fin 1))]]"
      "dense [JNum (Fin 1), JStr ''test'', JObject 7 [(''a'', JNum (Fin 1))]]"]
  by (simp add: identityOptions_def objectIs_refl dense_def)

text \<open>
  C7. The outcome of the comparison and of the categorizer in a render depends on nothing
  the program retains but the previous sequence. Two renders with the same options and the
  same dependencies, in two worlds that may differ in the diagnostic store, in the window,
  in the effect identifier and in the clock, yield the same analysis, which is the
  categorizer's result on the dependencies alone; and when the two worlds hold the same
  previous sequence (and agree on whether a render has happened before) they yield the same
  decision. The result of a render records the decision and the analysis as they were
  computed, also when the report to the store, which comes after them, raises.
\<close>

theorem comparison_and_categorizer_pure:
  "\<exists>r1 r2. useSmartEffect w1 t1 options deps = Inr r1 \<and>
           useSmartEffect w2 t2 options deps = Inr r2 \<and>
           map_option Inr (analysis r1) =
             (if debug options \<and> deps \<noteq> None then Some (analyzeDeps deps) else None) \<and>
           analysis r2 = analysis r1 \<and>
           (prevDepsRef (hook w1) = prevDepsRef (hook w2) \<and>
            isFirstRender (hook w1) = isFirstRender (hook w2) \<longrightarrow> willRun r1 = willRun r2)"
proof -
  let ?an = "if debug options then
               (case deps of None \<Rightarrow> None
                | Some d \<Rightarrow> Some (forEachFrom analyzeDep d 0
                    \<lparr>primitives = [], objects = [], functions' = [],
                     potentiallyMissing = [], redundant = []\<rparr>))
             else None"
  obtain b1 where b1: "shouldRun options (isFirstRender (hook w1)) (prevDepsRef (hook w1)) deps = Inr b1"
    using shouldRun_returns by blast
  obtain b2 where b2: "shouldRun options (isFirstRender (hook w2)) (prevDepsRef (hook w2)) deps = Inr b2"
    using shouldRun_returns by blast
  obtain e1 w1' where r1: "useSmartEffect w1 t1 options deps =
      Inr \<lparr>willRun = b1, analysis = ?an, thrown = e1, world = w1'\<rparr>"
    using useSmartEffect_result [OF b1] by blast
  obtain e2 w2' where r2: "useSmartEffect w2 t2 options deps =
      Inr \<lparr>willRun = b2, analysis = ?an, thrown = e2, world = w2'\<rparr>"
    using useSmartEffect_result [OF b2] by blast
  have an: "map_option Inr ?an =
      (if debug options \<and> deps \<noteq> None then Some (analyzeDeps deps) else None)"
    by (cases deps) (simp_all add: analyzeDeps_def)
  have "prevDepsRef (hook w1) = prevDepsRef (hook w2) \<and>
        isFirstRender (hook w1) = isFirstRender (hook w2) \<longrightarrow> b1 = b2"
    using b1 b2 by auto
  then show ?thesis using r1 r2 an by simp
qed

text \<open>
  C7 at two worlds with the same previous sequence: one without a window, with an empty,
  disabled store; one with the panel object of the library on its window and a store that
  is enabled and holds a report; at different clock readings.
\<close>

theorem comparison_and_categorizer_pure_witness:
  "prevDepsRef (hook quietWorld) = prevDepsRef (hook busyWorld) \<and>
   isFirstRender (hook quietWorld) = isFirstRender (hook busyWorld) \<and>
   (\<exists>r1 r2. useSmartEffect quietWorld 1 (deepOptions\<lparr>debug := True\<rparr>)
               (Some (dense [JArray 2 [JNum (Fin 1)]])) = Inr r1 \<and>
            useSmartEffect busyWorld 2 (deepOptions\<lparr>debug := True\<rparr>)
               (Some (dense [JArray 2 [JNum (Fin 1)]])) = Inr r2 \<and>
            analysis r2 = analysis r1 \<and> willRun r1 = willRun r2)"
  using comparison_and_categorizer_pure [of quietWorld 1 "deepOptions\<lparr>debug := True\<rparr>"
      "Some (dense [JArray 2 [JNum (Fin 1)]])" busyWorld 2]
  by (auto simp: quietWorld_def busyWorld_def)




section \<open>The categorizer: properties\<close>

text \<open>
  C4. The categorizer at a function that has a name and whose body holds an arrow
  function: the function goes to the function bucket and its one advisory calls it
  anonymous, because the source text contains \<open>=>\<close>. At the sequence of a named function and
  an arrow function the two advisories say named at index 0 and anonymous at index 1.
\<close>

theorem nested_arrow_reported_anonymous:
  "analyzeDeps (Some (dense
      [JFunction 1 ''namedFunction'' ''function namedFunction() { return () => 1; }''])) =
     Inr \<lparr>primitives = [], objects = [],
      functions' = [JFunction 1 ''namedFunction'' ''function namedFunction() { return () => 1; }''],
      potentiallyMissing = [''Anonymous function at index 0''], redundant = []\<rparr> \<and>
   analyzeDeps (Some (dense [JFunction 1 ''namedFunction'' ''function namedFunction() {}'',
                JFunction 2 [] ''() => {}''])) =
     Inr \<lparr>primitives = [], objects = [],
      functions' = [JFunction 1 ''namedFunction'' ''function namedFunction() {}'',
                    JFunction 2 [] ''() => {}''],
      potentiallyMissing = [''Named function at index 0'', ''Anonymous function at index 1''],
      redundant = []\<rparr>"
  by (simp add: analyzeDeps_buckets dense_def showNat_digit digitChar_def
      isAnonymous_def trim_def isWhitespace_def startsWith_def testFunctionParen_def)

text \<open>
  C5. For every sequence, the primitive bucket holds, in the order of the input, the
  elements that are \<open>null\<close>, \<open>undefined\<close>, a string, a number or a boolean; the structured
  bucket holds, in the order of the input, the arrays and the other objects; and the
  advisories are, in the order of the input, those of the elements: none for a primitive,
  \<open>Array at index i\<close> for an array and \<open>Object at index i\<close> for another object, \<open>i\<close> being
  the index of the element in the input. The sequence \<open>[1, 's', true, null, undefined]\<close>
  gives five primitives and no advisory; the sequence of an object and an array gives two
  structured values and the advisories \<open>Object at index 0\<close> and \<open>Array at index 1\<close>.
\<close>

theorem categorizer_buckets_and_advisories:
  "analyzeDeps (Some deps) =
     Inr \<lparr>primitives = filter (\<lambda>v. bucketOf v = Some PrimitiveBucket) (present deps),
          objects = filter (\<lambda>v. bucketOf v = Some StructuredBucket) (present deps),
          functions' = filter (\<lambda>v. bucketOf v = Some FunctionBucket) (present deps),
          potentiallyMissing = advisories deps 0,
          redundant = []\<rparr> \<and>
   analyzeDeps (Some (dense [JNum (Fin 1), JStr ''s'', JBool True, JNull, JUndefined])) =
     Inr \<lparr>primitives = [JNum (Fin 1), JStr ''s'', JBool True, JNull, JUndefined],
      objects = [], functions' = [], potentiallyMissing = [], redundant = []\<rparr> \<and>
   analyzeDeps (Some (dense [JObject 1 [(''a'', JNum (Fin 1))],
                JArray 2 [JNum (Fin 1), JNum (Fin 2), JNum (Fin 3)]])) =
     Inr \<lparr>primitives = [],
      objects = [JObject 1 [(''a'', JNum (Fin 1))],
                 JArray 2 [JNum (Fin 1), JNum (Fin 2), JNum (Fin 3)]],
      functions' = [],
      potentiallyMissing = [''Object at index 0'', ''Array at index 1''], redundant = []\<rparr>"
  by (simp add: analyzeDeps_buckets dense_def showNat_digit digitChar_def)

text \<open>
  C5 at a sequence that holds a string, an array, a hole, \<open>null\<close> and an object.
\<close>

theorem categorizer_buckets_and_advisories_witness:
  "analyzeDeps (Some [Some (JStr ''s''), Some (JArray 1 []), None, Some JNull, Some (JObject 2 [])]) =
     Inr \<lparr>primitives = [JStr ''s'', JNull], objects = [JArray 1 [], JObject 2 []],
          functions' = [],
          potentiallyMissing = [''Array at index 1'', ''Object at index 4''], redundant = []\<rparr>"
  using categorizer_buckets_and_advisories
    [of "[Some (JStr ''s''), Some (JArray 1 []), None, Some JNull, Some (JObject 2 [])]"]
  by (simp add: showNat_digit digitChar_def)

text \<open>
  C10, as amended. Each bucket holds the elements of its own kind, and a value has at most
  one kind, so that an element is appended to at most one bucket. The sizes of the three
  buckets sum to the length of the sequence exactly when the sequence has no hole and no
  element is a symbol or a bigint; the step of the categorizer on a symbol or a bigint
  leaves the report as it was: no bucket grows and no advisory is added.
\<close>

theorem categorizer_bucket_sizes:
  "\<exists>a. analyzeDeps (Some deps) = Inr a \<and>
     primitives a = filter (\<lambda>v. bucketOf v = Some PrimitiveBucket) (present deps) \<and>
     objects a = filter (\<lambda>v. bucketOf v = Some StructuredBucket) (present deps) \<and>
     functions' a = filter (\<lambda>v. bucketOf v = Some FunctionBucket) (present deps) \<and>
     (length (primitives a) + length (objects a) + length (functions' a) = length deps
      \<longleftrightarrow> list_all (\<lambda>s. case s of None \<Rightarrow> False
                         | Some v \<Rightarrow> typeof v \<noteq> TSymbol \<and> typeof v \<noteq> TBigint) deps) \<and>
     (typeof v = TSymbol \<or> typeof v = TBigint \<longrightarrow> analyzeDep v i a0 = a0)"
proof -
  let ?p = "length (filter (\<lambda>v. bucketOf v = Some PrimitiveBucket) (present deps))"
  let ?o = "length (filter (\<lambda>v. bucketOf v = Some StructuredBucket) (present deps))"
  let ?f = "length (filter (\<lambda>v. bucketOf v = Some FunctionBucket) (present deps))"
  let ?n = "length (filter (\<lambda>v. bucketOf v = None) (present deps))"
  have "?p + ?o + ?f = length deps \<longleftrightarrow> ?n = 0 \<and> length (present deps) = length deps"
    using bucket_sizes [of "present deps"] length_present_le [of deps] by arith
  also have "\<dots> \<longleftrightarrow> (\<forall>v\<in>set (present deps). typeof v \<noteq> TSymbol \<and> typeof v \<noteq> TBigint) \<and>
      list_all (\<lambda>s. s \<noteq> None) deps"
    by (simp add: bucketOf_None filter_empty_conv length_present_eq)
  also have "\<dots> \<longleftrightarrow> list_all (\<lambda>s. case s of None \<Rightarrow> False
                         | Some v \<Rightarrow> typeof v \<noteq> TSymbol \<and> typeof v \<noteq> TBigint) deps"
    by (auto simp: set_present list_all_iff split: option.splits)
  finally have sizes: "?p + ?o + ?f = length deps \<longleftrightarrow>
      list_all (\<lambda>s. case s of None \<Rightarrow> False
                | Some v \<Rightarrow> typeof v \<noteq> TSymbol \<and> typeof v \<noteq> TBigint) deps" .
  have skip: "typeof v = TSymbol \<or> typeof v = TBigint \<longrightarrow> analyzeDep v i a0 = a0"
    by (cases v) (simp_all add: analyzeDep_def)
  show ?thesis
    using sizes skip by (simp add: analyzeDeps_buckets)
qed

text \<open>
  The amended C10 at a sequence of a number, a symbol, an array and a bigint: one
  primitive, one structured value, no function, and the step on the symbol changes
  nothing.
\<close>

theorem categorizer_bucket_sizes_witness:
  "(\<exists>a. analyzeDeps (Some (dense [JNum (Fin 1), JSymbol 0, JArray 1 [], JBigInt 5])) = Inr a \<and>
        primitives a = [JNum (Fin 1)] \<and> objects a = [JArray 1 []] \<and> functions' a = []) \<and>
   (typeof (JSymbol 0) = TSymbol \<or> typeof (JSymbol 0) = TBigint) \<and>
   analyzeDep (JSymbol 0) 1
     \<lparr>primitives = [JNum (Fin 1)], objects = [], functions' = [], potentiallyMissing = [],
      redundant = []\<rparr> =
     \<lparr>primitives = [JNum (Fin 1)], objects = [], functions' = [], potentiallyMissing = [],
      redundant = []\<rparr>"
  using categorizer_bucket_sizes [of "dense [JNum (Fin 1), JSymbol 0, JArray 1 [], JBigInt 5]"
      "JSymbol 0" 1 "\<lparr>primitives = [JNum (Fin 1)], objects = [], functions' = [],
         potentiallyMissing = [], redundant = []\<rparr>"]
  by (auto simp: dense_def)

text \<open>
  C10 as stated fails at a sequence with a hole: \<open>[1, , {}]\<close> has length 3 and no symbol
  or bigint, and the buckets hold two values.
\<close>

theorem categorizer_hole_counterexample:
  "length [Some (JNum (Fin 1)), None, Some (JObject 1 [])] = 3 \<and>
   analyzeDeps (Some [Some (JNum (Fin 1)), None, Some (JObject 1 [])]) =
     Inr \<lparr>primitives = [JNum (Fin 1)], objects = [JObject 1 []], functions' = [],
          potentiallyMissing = [''Object at index 2''], redundant = []\<rparr>"
  by (simp add: analyzeDeps_buckets showNat_digit digitChar_def)

section \<open>The diagnostic store: properties\<close>

text \<open>
  C8. Starting from the empty, enabled store, in any window or none, the reports with the
  identifiers \<open>''''\<close>, \<open>a\<close>, \<open>aa\<close> and so on, 1001 of them, leave 1001 reports in the store:
  the oldest key is the empty string, which the test \<open>if (oldestKey)\<close> takes for an absent
  key, and nothing is evicted.
\<close>

theorem empty_id_defeats_cap:
  "length (effects (fold (\<lambda>r st. fst (reportToDevTools win st r)) (growingIds 1001) emptyStore))
     = 1001"
proof -
  let ?kv = "\<lambda>i. (replicate i (CHR ''a''), reportWithId (replicate i (CHR ''a'')))"
  let ?full = "\<lparr>effects = map ?kv [0..<1000], isEnabled = True\<rparr>"
  have fresh: "replicate 1000 (CHR ''a'') \<notin> fst ` set (map ?kv [0..<1000])"
  proof
    assume "replicate 1000 (CHR ''a'') \<in> fst ` set (map ?kv [0..<1000])"
    then obtain i where "i < 1000" "replicate 1000 (CHR ''a'') = replicate i (CHR ''a'')"
      by auto
    then have "length (replicate 1000 (CHR ''a'')) = length (replicate i (CHR ''a''))" by simp
    with \<open>i < 1000\<close> show False by simp
  qed
  have split: "[0..<1001] = [0..<1000] @ [1000]"
    using upt_Suc_append [of 0 1000] by simp
  have "fold (\<lambda>r st. fst (reportToDevTools win st r)) (growingIds 1001) emptyStore =
        fst (reportToDevTools win
               (fold (\<lambda>r st. fst (reportToDevTools win st r)) (growingIds 1000) emptyStore)
               (reportWithId (replicate 1000 (CHR ''a''))))"
    by (simp add: growingIds_def split)
  also have "\<dots> = fst (reportToDevTools win ?full (reportWithId (replicate 1000 (CHR ''a''))))"
    by (simp add: growing_store)
  finally have eq: "fold (\<lambda>r st. fst (reportToDevTools win st r)) (growingIds 1001) emptyStore =
      fst (reportToDevTools win ?full (reportWithId (replicate 1000 (CHR ''a''))))" .
  have "[0..<1000] = 0 # [Suc 0..<1000]"
    by (rule upt_conv_Cons) simp
  then have first: "firstKey (map ?kv [0..<1000] @ [?kv 1000]) = Some []"
    by simp
  have "effects (fst (reportToDevTools win ?full (reportWithId (replicate 1000 (CHR ''a''))))) =
        map ?kv [0..<1000] @ [?kv 1000]"
    using mapSet_fresh [OF fresh] first
    by (simp add: reportToDevTools_def Let_def reportWithId_def split: sum.splits)
  then show ?thesis using eq by simp
qed

end
